theory Spec2Isabelle
  imports
    Complex_Main
    "HOL-Library.Char_ord"
    "HOL-Library.List_Lexorder"
    "HOL-Library.Product_Lexorder"
    "HOL-Library.Sublist"
    "HOL-Library.AList"
begin

text \<open>
  A shallow embedding of the GDP forecasting repository: the dashboard's prediction
  handler and the timeline functions of the integration design (TypeScript), and the
  training-time data preparation and the request validation of the backend (Python).
  JavaScript numbers are the finite doubles, taken as reals: a literal, a product and a
  difference are rounded to the nearest double, and \<^verbatim>\<open>NaN\<close> and the infinities are
  outside the model. Python floats are abstracted by the reals; Python's non-finite
  floats are kept where the validation distinguishes them.
\<close>

section \<open>Frontend (dashboard.tsx and the integration design)\<close>

subsection \<open>The data of the charts\<close>

datatype point_type = historical | prediction

record ChartDataPoint =
  year :: string
  growth :: real
  type :: point_type

record HistoricalDataPoint =
  Country :: string
  Year :: int
  GDP_Growth :: real
  Exports_Growth :: real
  Imports_Growth :: real

subsection \<open>JavaScript numbers\<close>

text \<open>The number of binary digits of a natural number.\<close>

fun bit_length :: "nat \<Rightarrow> nat" where
  "bit_length n = (if n = 0 then 0 else Suc (bit_length (n div 2)))"

declare bit_length.simps [simp del]

text \<open>
  The binary exponent of a number other than zero: the \<open>e\<close> with
  \<open>2^e \<le> \<bar>x\<bar> < 2^(e + 1)\<close>.
\<close>

definition binary_exponent :: "real \<Rightarrow> int" where
  "binary_exponent x =
     (if \<bar>x\<bar> \<ge> 1 then int (bit_length (nat \<lfloor>\<bar>x\<bar>\<rfloor>)) - 1
      else - int (bit_length (nat (\<lceil>1 / \<bar>x\<bar>\<rceil> - 1))))"

definition pow2 :: "int \<Rightarrow> real" where
  "pow2 i = (if i \<ge> 0 then 2 ^ nat i else 1 / 2 ^ nat (- i))"

definition round_half_even :: "real \<Rightarrow> int" where
  "round_half_even x =
     (let n = \<lfloor>x\<rfloor>; f = x - of_int n
      in if f < 1 / 2 then n else if f > 1 / 2 then n + 1 else if even n then n else n + 1)"

text \<open>
  The double nearest to a real number, a tie going to the even significand: 53
  significant binary digits, and below \<open>2^(-1022)\<close> the fixed spacing \<open>2^(-1074)\<close> of
  the subnormal numbers. A result of \<open>2^1024\<close> or more stands for an infinity, which the
  model does not have.
\<close>

definition round_double :: "real \<Rightarrow> real" where
  "round_double x =
     (if x = 0 then 0
      else
        let e = max (binary_exponent x) (- 1022);
            quantum = pow2 (e - 52)
        in (if x < 0 then - 1 else 1) * of_int (round_half_even (\<bar>x\<bar> / quantum)) * quantum)"

text \<open>The operators \<^verbatim>\<open>*\<close> and \<^verbatim>\<open>-\<close> on two doubles: the exact result, rounded.\<close>

definition js_times :: "real \<Rightarrow> real \<Rightarrow> real" where
  "js_times x y = round_double (x * y)"

definition js_minus :: "real \<Rightarrow> real \<Rightarrow> real" where
  "js_minus x y = round_double (x - y)"

text \<open>
  The decimal that \<^verbatim>\<open>x.toFixed(2)\<close> prints for a double below \<open>10^21\<close> in magnitude:
  \<^verbatim>\<open>toFixed\<close> takes the integer \<open>n\<close> with \<open>n / 100\<close> nearest to the magnitude, the
  larger one on a tie, and keeps the sign.
\<close>

definition fixed2 :: "real \<Rightarrow> real" where
  "fixed2 x =
     (if x < 0 then - (of_int \<lfloor>- x * 100 + 1 / 2\<rfloor> / 100)
      else of_int \<lfloor>x * 100 + 1 / 2\<rfloor> / 100)"

text \<open>
  \<^verbatim>\<open>parseFloat(x.toFixed(2))\<close>: the double nearest to that decimal. From \<open>10^21\<close> on
  \<^verbatim>\<open>toFixed\<close> prints the number itself, which \<^verbatim>\<open>parseFloat\<close> reads back.
\<close>

definition toFixed2 :: "real \<Rightarrow> real" where
  "toFixed2 x = (if \<bar>x\<bar> \<ge> 10 ^ 21 then x else round_double (fixed2 x))"

subsection \<open>Chart points and the timeline functions\<close>

text \<open>\<^verbatim>\<open>Number.prototype.toString\<close> on an integer: its decimal digits.\<close>

fun nat_toString :: "nat \<Rightarrow> string" where
  "nat_toString n =
     (if n < 10 then [''0123456789'' ! n]
      else nat_toString (n div 10) @ [''0123456789'' ! (n mod 10)])"

definition int_toString :: "int \<Rightarrow> string" where
  "int_toString i = (if i < 0 then CHR ''-'' # nat_toString (nat (- i)) else nat_toString (nat i))"

definition transformHistoricalData :: "HistoricalDataPoint list \<Rightarrow> ChartDataPoint list" where
  "transformHistoricalData backendData =
     map (\<lambda>point. \<lparr>year = int_toString (Year point),
                     growth = toFixed2 (GDP_Growth point),
                     type = historical\<rparr>) backendData"

definition addPredictionToTimeline :: "real \<Rightarrow> ChartDataPoint list \<Rightarrow> ChartDataPoint list" where
  "addPredictionToTimeline predictedGrowth existingData =
     (let predictionPoints =
            [\<lparr>year = ''2025'', growth = toFixed2 predictedGrowth, type = prediction\<rparr>,
             \<lparr>year = ''2026'',
              growth = toFixed2 (js_times predictedGrowth (round_double (105 / 100))),
              type = prediction\<rparr>]
      in existingData @ predictionPoints)"

subsection \<open>The dashboard's state and \<^verbatim>\<open>handlePredict\<close>\<close>

record contribution =
  name :: string
  "value" :: real
  percentage :: real

record dashboard_state =
  selectedCountry :: string
  populationGrowth :: string
  exportsGrowth :: string
  importsGrowth :: string
  investment :: string
  consumption :: string
  governmentSpending :: string
  isCalculating :: bool
  prediction_value :: "real option"
  historicalData :: "ChartDataPoint list"
  showPrediction :: bool
  confidenceScore :: real
  contributionData :: "contribution list"
  isLoadingHistory :: bool
  historyError :: "string option"
  predictionMethod :: string
  apiError :: "string option"
  countries :: "string list"
  isLoadingCountries :: bool

text \<open>
  The state variable \<^verbatim>\<open>prediction\<close> is the field \<open>prediction_value\<close>: the name is taken
  by the point type. \<^verbatim>\<open>null\<close> is \<open>None\<close>.
\<close>

datatype js_value = JSString string | JSNumber real

type_synonym request_body = "(string \<times> js_value) list"

record PredictionResponse =
  predicted_gdp_growth :: real
  model_type :: string

text \<open>
  The module \<^verbatim>\<open>services/api\<close> is a parameter: a rejected promise is \<open>Inl\<close>, and
  \<open>handleApiError\<close> gives the message of the error it builds.
\<close>

record 'e api_service =
  submitPrediction :: "request_body \<Rightarrow> 'e + PredictionResponse"
  fetchHistoricalData :: "string \<Rightarrow> 'e + HistoricalDataPoint list"
  handleApiError :: "'e \<Rightarrow> string"

datatype api_call = SubmitPrediction request_body | FetchHistoricalData string

text \<open>The object literal of lines 167-175; \<open>parseFloat\<close> is the JavaScript builtin.\<close>

definition requestData :: "(string \<Rightarrow> real) \<Rightarrow> dashboard_state \<Rightarrow> request_body" where
  "requestData parseFloat s =
     [(''Country'', JSString (selectedCountry s)),
      (''Population_Growth_Rate'', JSNumber (parseFloat (populationGrowth s))),
      (''Exports_Growth_Rate'', JSNumber (parseFloat (exportsGrowth s))),
      (''Imports_Growth_Rate'', JSNumber (parseFloat (importsGrowth s))),
      (''Investment_Growth_Rate'', JSNumber (parseFloat (investment s))),
      (''Consumption_Growth_Rate'', JSNumber (parseFloat (consumption s))),
      (''Govt_Spend_Growth_Rate'', JSNumber (parseFloat (governmentSpending s)))]"

text \<open>
  Lines 191-218 and the \<^verbatim>\<open>finally\<close> block: what the handler does once the response
  (and the history, when it was fetched) has arrived. \<open>s\<close> is the state the handler was
  called in, whose variables the closure reads; \<open>s'\<close> carries the updates made so far.
\<close>

definition handlePredict_finish ::
  "(string \<Rightarrow> real) \<Rightarrow> PredictionResponse \<Rightarrow> dashboard_state \<Rightarrow> dashboard_state \<Rightarrow> dashboard_state" where
  "handlePredict_finish parseFloat response s s' =
     (let historicalOnly = filter (\<lambda>d. type d = historical) (historicalData s);
          withPrediction = addPredictionToTimeline (predicted_gdp_growth response) historicalOnly;
          pop_v = parseFloat (populationGrowth s);
          exp_v = parseFloat (exportsGrowth s);
          imp_v = parseFloat (importsGrowth s);
          inv_v = parseFloat (investment s);
          con_v = parseFloat (consumption s);
          gov_v = parseFloat (governmentSpending s);
          contributions =
            [\<lparr>name = ''Population'', value = js_times pop_v (round_double (15 / 100)),
              percentage = 15\<rparr>,
             \<lparr>name = ''Exports'', value = js_times exp_v (round_double (25 / 100)),
              percentage = 25\<rparr>,
             \<lparr>name = ''Trade Balance'',
              value = js_times (js_minus exp_v imp_v) (round_double (2 / 10)),
              percentage = 20\<rparr>,
             \<lparr>name = ''Investment'', value = js_times inv_v (round_double (2 / 10)),
              percentage = 20\<rparr>,
             \<lparr>name = ''Consumption'', value = js_times con_v (round_double (15 / 100)),
              percentage = 15\<rparr>,
             \<lparr>name = ''Govt Spending'', value = js_times gov_v (round_double (5 / 100)),
              percentage = 5\<rparr>];
          consistency =
            js_minus (js_minus 100 (js_times \<bar>js_minus exp_v imp_v\<bar> 2))
              (js_times \<bar>js_minus inv_v con_v\<bar> (round_double (15 / 10)))
      in s'\<lparr>historicalData := withPrediction,
            contributionData := contributions,
            confidenceScore := max 85 (min 98 consistency),
            showPrediction := True,
            isCalculating := False\<rparr>)"

text \<open>
  \<^verbatim>\<open>handlePredict\<close>: the state after the handler has run to its end, and the requests it
  issued, in order.
\<close>

definition handlePredict ::
  "(string \<Rightarrow> real) \<Rightarrow> 'e api_service \<Rightarrow> dashboard_state \<Rightarrow> dashboard_state \<times> api_call list" where
  "handlePredict parseFloat api s =
     (if selectedCountry s = [] \<or> populationGrowth s = [] \<or> exportsGrowth s = [] \<or>
         importsGrowth s = [] \<or> investment s = [] \<or> consumption s = [] \<or>
         governmentSpending s = []
      then (s, [])
      else
        let s1 = s\<lparr>isCalculating := True, apiError := None\<rparr>;
            req = requestData parseFloat s
        in case submitPrediction api req of
             Inl error \<Rightarrow>
               (s1\<lparr>apiError := Some (handleApiError api error), isCalculating := False\<rparr>,
                [SubmitPrediction req])
           | Inr response \<Rightarrow>
               let s2 = s1\<lparr>prediction_value := Some (predicted_gdp_growth response),
                           predictionMethod := model_type response\<rparr>
               in if length (historicalData s) = 0 \<or>
                     list_all (\<lambda>d. type d = prediction) (historicalData s)
                  then (case fetchHistoricalData api (selectedCountry s) of
                          Inl error \<Rightarrow>
                            (s2\<lparr>apiError := Some (handleApiError api error),
                                isCalculating := False\<rparr>,
                             [SubmitPrediction req, FetchHistoricalData (selectedCountry s)])
                        | Inr historical_points \<Rightarrow>
                            (handlePredict_finish parseFloat response s
                               (s2\<lparr>historicalData := transformHistoricalData historical_points\<rparr>),
                             [SubmitPrediction req, FetchHistoricalData (selectedCountry s)]))
                  else (handlePredict_finish parseFloat response s s2, [SubmitPrediction req]))"

text \<open>The \<^verbatim>\<open>disabled\<close> attribute of the Generate Prediction button (line 549).\<close>

definition predict_button_disabled :: "dashboard_state \<Rightarrow> bool" where
  "predict_button_disabled s \<longleftrightarrow>
     selectedCountry s = [] \<or> populationGrowth s = [] \<or> exportsGrowth s = [] \<or>
     importsGrowth s = [] \<or> investment s = [] \<or> consumption s = [] \<or>
     governmentSpending s = [] \<or> isCalculating s"

section \<open>Training-time pipeline (BEFORE\_AFTER\_COMPARISON.md)\<close>

subsection \<open>The data frame\<close>

text \<open>
  One line of \<^verbatim>\<open>final_data_with_year.csv\<close>. The key columns are always present; a
  value cell is a number or missing (pandas \<^verbatim>\<open>NaN\<close>), which is \<open>None\<close> here.
  Floating-point numbers are abstracted by the reals.
\<close>

record indicator_row =
  Country :: string
  Year :: int
  GDP_Growth_Rate :: "real option"
  Population_Growth_Rate :: "real option"
  Exports_Growth_Rate :: "real option"
  Imports_Growth_Rate :: "real option"
  Investment_Growth_Rate :: "real option"
  Consumption_Growth_Rate :: "real option"
  Govt_Spend_Growth_Rate :: "real option"

text \<open>The frame after the six \<^verbatim>\<open>_Lag1\<close> columns have been added.\<close>

record lagged_row = indicator_row +
  Population_Growth_Rate_Lag1 :: "real option"
  Exports_Growth_Rate_Lag1 :: "real option"
  Imports_Growth_Rate_Lag1 :: "real option"
  Investment_Growth_Rate_Lag1 :: "real option"
  Consumption_Growth_Rate_Lag1 :: "real option"
  Govt_Spend_Growth_Rate_Lag1 :: "real option"

subsection \<open>\<^verbatim>\<open>create_lagged_features\<close>\<close>

text \<open>\<^verbatim>\<open>df.sort_values(['Country', 'Year'])\<close>: ascending, lexicographic on the two keys.\<close>

definition sort_values :: "indicator_row list \<Rightarrow> indicator_row list" where
  "sort_values df = sort_key (\<lambda>r. (Country r, Year r)) df"

text \<open>
  \<^verbatim>\<open>df.groupby('Country')[col].shift(1)\<close>: every line receives the cell of the line
  before it in its own group, in frame order, and the first line of a group receives
  \<^verbatim>\<open>NaN\<close>. \<open>group_prev seen df\<close> walks the frame with the lines already passed
  (latest first) and finds that earlier line.
\<close>

fun group_prev :: "indicator_row list \<Rightarrow> indicator_row list \<Rightarrow> indicator_row option list" where
  "group_prev seen [] = []"
| "group_prev seen (r # rs) =
     find (\<lambda>p. Country p = Country r) seen # group_prev (r # seen) rs"

definition groupby_shift ::
  "(indicator_row \<Rightarrow> real option) \<Rightarrow> indicator_row list \<Rightarrow> real option list" where
  "groupby_shift col df = map (\<lambda>p. Option.bind p col) (group_prev [] df)"

text \<open>Column assignment \<^verbatim>\<open>df[name] = series\<close>, for the six new columns at once.\<close>

definition assign_lags ::
  "indicator_row list \<Rightarrow> real option list \<Rightarrow> real option list \<Rightarrow> real option list \<Rightarrow>
   real option list \<Rightarrow> real option list \<Rightarrow> real option list \<Rightarrow> lagged_row list" where
  "assign_lags df pop_l exp_l imp_l inv_l con_l gov_l =
     map (\<lambda>i. indicator_row.extend (df ! i)
            (lagged_row.fields (pop_l ! i) (exp_l ! i) (imp_l ! i) (inv_l ! i) (con_l ! i)
               (gov_l ! i)))
       [0..<length df]"

text \<open>\<^verbatim>\<open>df.dropna()\<close>: a line stays when none of its cells is missing.\<close>

definition no_missing :: "lagged_row \<Rightarrow> bool" where
  "no_missing r \<longleftrightarrow>
     GDP_Growth_Rate r \<noteq> None \<and> Population_Growth_Rate r \<noteq> None \<and>
     Exports_Growth_Rate r \<noteq> None \<and> Imports_Growth_Rate r \<noteq> None \<and>
     Investment_Growth_Rate r \<noteq> None \<and> Consumption_Growth_Rate r \<noteq> None \<and>
     Govt_Spend_Growth_Rate r \<noteq> None \<and>
     Population_Growth_Rate_Lag1 r \<noteq> None \<and> Exports_Growth_Rate_Lag1 r \<noteq> None \<and>
     Imports_Growth_Rate_Lag1 r \<noteq> None \<and> Investment_Growth_Rate_Lag1 r \<noteq> None \<and>
     Consumption_Growth_Rate_Lag1 r \<noteq> None \<and> Govt_Spend_Growth_Rate_Lag1 r \<noteq> None"

definition dropna :: "lagged_row list \<Rightarrow> lagged_row list" where
  "dropna df = filter no_missing df"

definition create_lagged_features :: "indicator_row list \<Rightarrow> lagged_row list" where
  "create_lagged_features df0 =
     (let df = sort_values df0 in
      dropna (assign_lags df
        (groupby_shift Population_Growth_Rate df)
        (groupby_shift Exports_Growth_Rate df)
        (groupby_shift Imports_Growth_Rate df)
        (groupby_shift Investment_Growth_Rate df)
        (groupby_shift Consumption_Growth_Rate df)
        (groupby_shift Govt_Spend_Growth_Rate df)))"

subsection \<open>\<^verbatim>\<open>temporal_train_test_split\<close>\<close>

definition temporal_train_test_split ::
  "('a indicator_row_scheme) list \<Rightarrow> int \<Rightarrow>
   ('a indicator_row_scheme) list \<times> ('a indicator_row_scheme) list" where
  "temporal_train_test_split df split_year =
     (let train_df = filter (\<lambda>r. Year r < split_year) df;
          test_df = filter (\<lambda>r. Year r \<ge> split_year) df
      in (train_df, test_df))"

section \<open>Backend request handling (BEFORE\_AFTER\_COMPARISON.md, Issue 4)\<close>

subsection \<open>Python values\<close>

datatype pyfloat = Fin real | PosInf | NegInf | NaN

text \<open>What \<^verbatim>\<open>request.get_json()\<close> yields for the members of the request object.\<close>

datatype json =
    JNull
  | JBool bool
  | JInt int
  | JFloat pyfloat
  | JStr string
  | JArray "json list"
  | JObject "(string \<times> json) list"

datatype py_exn = ValueError | TypeError | OverflowError | KeyError | AttributeError

text \<open>
  The parts of the Python runtime that are not spelled out: reading a float from a
  string (\<open>None\<close> is \<^verbatim>\<open>ValueError\<close>), printing a float, and \<^verbatim>\<open>str\<close> of integers, lists
  and dictionaries.
\<close>

record py_runtime =
  float_of_str :: "string \<Rightarrow> pyfloat option"
  str_of_float :: "pyfloat \<Rightarrow> string"
  str_of_other :: "json \<Rightarrow> string"

text \<open>
  \<^verbatim>\<open>float(x)\<close>. An integer of magnitude \<open>2^1024 - 2^970\<close> or more rounds beyond the
  largest double and raises \<^verbatim>\<open>OverflowError\<close>.
\<close>

definition py_float :: "py_runtime \<Rightarrow> json \<Rightarrow> py_exn + pyfloat" where
  "py_float rt x =
     (case x of
        JNull \<Rightarrow> Inl TypeError
      | JBool b \<Rightarrow> Inr (Fin (if b then 1 else 0))
      | JInt i \<Rightarrow> (if \<bar>i\<bar> \<ge> 2 ^ 1024 - 2 ^ 970 then Inl OverflowError else Inr (Fin (of_int i)))
      | JFloat f \<Rightarrow> Inr f
      | JStr s \<Rightarrow> (case float_of_str rt s of None \<Rightarrow> Inl ValueError | Some f \<Rightarrow> Inr f)
      | JArray _ \<Rightarrow> Inl TypeError
      | JObject _ \<Rightarrow> Inl TypeError)"

definition py_str :: "py_runtime \<Rightarrow> json \<Rightarrow> string" where
  "py_str rt x =
     (case x of
        JStr s \<Rightarrow> s
      | JNull \<Rightarrow> ''None''
      | JBool b \<Rightarrow> (if b then ''True'' else ''False'')
      | JFloat f \<Rightarrow> str_of_float rt f
      | _ \<Rightarrow> str_of_other rt x)"

text \<open>
  \<^verbatim>\<open>str.strip()\<close>: the characters below 256 that Python counts as whitespace are removed
  from both ends.
\<close>

definition py_isspace :: "char \<Rightarrow> bool" where
  "py_isspace c \<longleftrightarrow>
     (let n = (of_char c :: nat)
      in (9 \<le> n \<and> n \<le> 13) \<or> (28 \<le> n \<and> n \<le> 32) \<or> n = 133 \<or> n = 160)"

definition py_strip :: "string \<Rightarrow> string" where
  "py_strip s = rev (dropWhile py_isspace (rev (dropWhile py_isspace s)))"

fun py_join :: "string \<Rightarrow> string list \<Rightarrow> string" where
  "py_join sep [] = []"
| "py_join sep [x] = x"
| "py_join sep (x # y # ys) = x @ sep @ py_join sep (y # ys)"

text \<open>\<^verbatim>\<open>-100 <= value <= 100\<close>: false for the infinities and for \<^verbatim>\<open>nan\<close>.\<close>

fun in_range :: "pyfloat \<Rightarrow> bool" where
  "in_range (Fin v) \<longleftrightarrow> - 100 \<le> v \<and> v \<le> 100"
| "in_range _ \<longleftrightarrow> False"

text \<open>
  \<^verbatim>\<open>round(x, 2)\<close>: to the nearest hundredth, a tie going to the even one.
\<close>

definition py_round2 :: "real \<Rightarrow> real" where
  "py_round2 x =
     (let n = \<lfloor>x * 100\<rfloor>; f = x * 100 - of_int n
      in (if f < 1 / 2 then of_int n
          else if f > 1 / 2 then of_int (n + 1)
          else if even n then of_int n else of_int (n + 1)) / 100)"

subsection \<open>\<^verbatim>\<open>validate_prediction_input\<close>\<close>

datatype pyval = PStr string | PFloat pyfloat

type_synonym validated = "(string \<times> pyval) list"

text \<open>
  The tuple \<^verbatim>\<open>(is_valid, error_msg, validated_data)\<close>; an exception that leaves the
  function is \<open>Inl\<close>.
\<close>

type_synonym validation = "py_exn + (bool \<times> string option \<times> validated option)"

definition required_fields :: "string list" where
  "required_fields =
     [''Country'', ''Population'', ''Exports'', ''Imports'',
      ''Investment'', ''Consumption'', ''Govt_Spend'']"

definition numeric_fields :: "string list" where
  "numeric_fields =
     [''Population'', ''Exports'', ''Imports'', ''Investment'', ''Consumption'', ''Govt_Spend'']"

text \<open>\<^verbatim>\<open>float(data[field])\<close>, with the exception it may raise.\<close>

definition coerced :: "py_runtime \<Rightarrow> (string \<rightharpoonup> json) \<Rightarrow> string \<Rightarrow> py_exn + pyfloat" where
  "coerced rt data field =
     (case data field of None \<Rightarrow> Inl KeyError | Some x \<Rightarrow> py_float rt x)"

text \<open>
  The \<^verbatim>\<open>for field in [...]\<close> loop over the fields still to be checked, with the
  dictionary built so far. \<^verbatim>\<open>ValueError\<close> and \<^verbatim>\<open>TypeError\<close> are caught, any other
  exception leaves the function.
\<close>

fun validate_numeric ::
  "py_runtime \<Rightarrow> (string \<rightharpoonup> json) \<Rightarrow> string list \<Rightarrow> validated \<Rightarrow> validation" where
  "validate_numeric rt data [] validated_data = Inr (True, None, Some validated_data)"
| "validate_numeric rt data (field # rest) validated_data =
     (case coerced rt data field of
        Inl ValueError \<Rightarrow>
          Inr (False, Some (''Invalid '' @ field @ '' value: must be a number''), None)
      | Inl TypeError \<Rightarrow>
          Inr (False, Some (''Invalid '' @ field @ '' value: must be a number''), None)
      | Inl e \<Rightarrow> Inl e
      | Inr v \<Rightarrow>
          if \<not> in_range v
          then Inr (False,
                 Some (field @ '' value '' @ str_of_float rt v @
                       '' is outside reasonable range''), None)
          else validate_numeric rt data rest
                 (AList.update field (PFloat v) validated_data))"

definition validate_prediction_input :: "py_runtime \<Rightarrow> (string \<rightharpoonup> json) \<Rightarrow> validation" where
  "validate_prediction_input rt data =
     (let missing = filter (\<lambda>f. data f = None) required_fields
      in if missing \<noteq> []
         then Inr (False, Some (''Missing required fields: '' @ py_join '', '' missing), None)
         else
           (case data ''Country'' of
              None \<Rightarrow> Inl KeyError
            | Some c \<Rightarrow>
                let validated_data = AList.update ''Country'' (PStr (py_strip (py_str rt c))) []
                in if py_strip (py_str rt c) = []
                   then Inr (False, Some ''Country name cannot be empty'', None)
                   else validate_numeric rt data numeric_fields validated_data))"

subsection \<open>The \<^verbatim>\<open>/predict\<close> route\<close>

text \<open>
  The label encoder maps the countries of the training data to their codes; the model
  is absent when it could not be loaded, and its \<^verbatim>\<open>predict\<close> may raise.
\<close>

record backend =
  encoder :: "string \<rightharpoonup> nat"
  model :: "(real list \<Rightarrow> py_exn + real) option"

text \<open>
  A JSON answer with its status, or an exception that nothing catches. The entry
  \<^verbatim>\<open>required_fields\<close> of the first answer is elided in the source and left out.
\<close>

datatype http_response =
    Json200 (resp_growth: real) (resp_method: string) (resp_country: string)
  | Json400 (resp_error: string) (resp_message: "string option")
  | Unhandled py_exn

definition lookup_number :: "validated \<Rightarrow> string \<Rightarrow> real option" where
  "lookup_number validated_data field =
     (case map_of validated_data field of Some (PFloat (Fin v)) \<Rightarrow> Some v | _ \<Rightarrow> None)"

definition lookup_string :: "validated \<Rightarrow> string \<Rightarrow> string option" where
  "lookup_string validated_data field =
     (case map_of validated_data field of Some (PStr v) \<Rightarrow> Some v | _ \<Rightarrow> None)"

text \<open>
  \<^verbatim>\<open>features = [...]\<close> is elided in the route; it is the list of the earlier version of
  the same route: the country code followed by the six numbers.
\<close>

definition predict :: "py_runtime \<Rightarrow> backend \<Rightarrow> (string \<rightharpoonup> json) \<Rightarrow> http_response" where
  "predict rt app data =
     (case validate_prediction_input rt data of
        Inl e \<Rightarrow> Unhandled e
      | Inr (is_valid, error_msg, validated_data) \<Rightarrow>
          if \<not> is_valid then Json400 ''Invalid input'' error_msg
          else
            (case validated_data of
               None \<Rightarrow> Unhandled TypeError
             | Some v \<Rightarrow>
                 (case lookup_string v ''Country'' of
                    None \<Rightarrow> Unhandled KeyError
                  | Some country \<Rightarrow>
                      (case encoder app country of
                         None \<Rightarrow>
                           Json400 ''Unknown country''
                             (Some (''Country '' @ [CHR 0x27] @ country @ [CHR 0x27] @
                                    '' not found''))
                       | Some country_code \<Rightarrow>
                           (case those (map (lookup_number v) numeric_fields) of
                              None \<Rightarrow> Unhandled KeyError
                            | Some numbers \<Rightarrow>
                                (case model app of
                                   None \<Rightarrow> Unhandled AttributeError
                                 | Some model_predict \<Rightarrow>
                                     (case model_predict (real country_code # numbers) of
                                        Inl e \<Rightarrow> Unhandled e
                                      | Inr predicted \<Rightarrow>
                                          Json200 (py_round2 predicted) ''AI Model''
                                            country)))))))"

section \<open>Vocabulary of the properties and example inputs\<close>

subsection \<open>Request validation\<close>

text \<open>A field passes when it coerces to a number within the range.\<close>

definition field_passes :: "py_runtime \<Rightarrow> (string \<rightharpoonup> json) \<Rightarrow> string \<Rightarrow> bool" where
  "field_passes rt data field \<longleftrightarrow>
     (case coerced rt data field of Inr v \<Rightarrow> in_range v | Inl _ \<Rightarrow> False)"

text \<open>
  A fragment of CPython for the examples: it reads the two strings listed and rejects
  every other one, and prints whole numbers. The examples use it on the listed strings,
  on strings CPython rejects as well, and on whole numbers only.
\<close>

definition example_runtime :: py_runtime where
  "example_runtime =
     \<lparr>float_of_str = map_of [(''150'', Fin 150), (''2.5'', Fin (5 / 2))],
      str_of_float = (\<lambda>x. case x of
                        Fin v \<Rightarrow> int_toString \<lfloor>v\<rfloor> @ ''.0''
                      | PosInf \<Rightarrow> ''inf'' | NegInf \<Rightarrow> ''-inf'' | NaN \<Rightarrow> ''nan''),
      str_of_other = (\<lambda>x. case x of JInt i \<Rightarrow> int_toString i | _ \<Rightarrow> [])\<rparr>"

text \<open>
  What the loop stores for a field that passes; a field that does not pass stores
  nothing.
\<close>

definition accepted ::
  "py_runtime \<Rightarrow> (string \<rightharpoonup> json) \<Rightarrow> string \<Rightarrow> validated \<Rightarrow> validated" where
  "accepted rt data field validated_data =
     (case coerced rt data field of
        Inr v \<Rightarrow> AList.update field (PFloat v) validated_data
      | Inl _ \<Rightarrow> validated_data)"

text \<open>The request \<^verbatim>\<open>{"Country": "USA", "Population": 1.1}\<close> of the document.\<close>

definition payload_usa_partial :: "string \<rightharpoonup> json" where
  "payload_usa_partial =
     map_of [(''Country'', JStr ''USA''), (''Population'', JFloat (Fin (11 / 10)))]"

text \<open>
  Complete requests: the scenario of the specification, and variations of its first
  three members.
\<close>

definition full_payload :: "json \<Rightarrow> json \<Rightarrow> json \<Rightarrow> (string \<rightharpoonup> json)" where
  "full_payload c p e =
     map_of [(''Country'', c), (''Population'', p), (''Exports'', e),
             (''Imports'', JFloat (Fin (48 / 10))), (''Investment'', JFloat (Fin (35 / 10))),
             (''Consumption'', JFloat (Fin (28 / 10))), (''Govt_Spend'', JFloat (Fin 2))]"

definition payload_brazil :: "string \<rightharpoonup> json" where
  "payload_brazil = full_payload (JStr ''Brazil'') (JFloat (Fin (11 / 10))) (JFloat (Fin (52 / 10)))"

definition payload_population_150 :: "string \<rightharpoonup> json" where
  "payload_population_150 = full_payload (JStr ''USA'') (JInt 150) (JFloat (Fin (52 / 10)))"

definition payload_blank_country_bad_number :: "string \<rightharpoonup> json" where
  "payload_blank_country_bad_number =
     full_payload (JStr ''  '') (JStr ''abc'') (JFloat (Fin (52 / 10)))"

definition payload_range_then_bad :: "string \<rightharpoonup> json" where
  "payload_range_then_bad = full_payload (JStr ''USA'') (JInt 150) (JStr ''abc'')"

text \<open>
  A request that sends the last number under the display label in place of the
  required name.
\<close>

definition payload_display_label :: "string \<rightharpoonup> json" where
  "payload_display_label =
     map_of [(''Country'', JStr ''Brazil''), (''Population'', JFloat (Fin (11 / 10))),
             (''Exports'', JFloat (Fin (52 / 10))), (''Imports'', JFloat (Fin (48 / 10))),
             (''Investment'', JFloat (Fin (35 / 10))), (''Consumption'', JFloat (Fin (28 / 10))),
             (''Government Spending'', JFloat (Fin 2))]"

text \<open>Backends that know one country: without a model, with one that raises, with one that answers.\<close>

definition backend_without_model :: backend where
  "backend_without_model = \<lparr>encoder = [''Brazil'' \<mapsto> 0], model = None\<rparr>"

definition backend_failing_model :: backend where
  "backend_failing_model =
     \<lparr>encoder = [''Brazil'' \<mapsto> 0], model = Some (\<lambda>features. Inl ValueError)\<rparr>"

definition backend_constant_model :: backend where
  "backend_constant_model =
     \<lparr>encoder = [''Brazil'' \<mapsto> 0], model = Some (\<lambda>features. Inr (345 / 100))\<rparr>"

subsection \<open>The dashboard\<close>

definition history_to_2021 :: "ChartDataPoint list" where
  "history_to_2021 =
     [\<lparr>year = ''2020'', growth = - (33 / 10), type = historical\<rparr>,
      \<lparr>year = ''2021'', growth = 5, type = historical\<rparr>]"

definition example_parseFloat :: "string \<Rightarrow> real" where
  "example_parseFloat s =
     (case map_of [(''1.1'', 11 / 10), (''5.2'', 52 / 10), (''4.8'', 48 / 10),
                   (''3.5'', 35 / 10), (''2.8'', 28 / 10), (''2.0'', 2)] s of
        Some v \<Rightarrow> v | None \<Rightarrow> 0)"

definition example_state :: dashboard_state where
  "example_state =
     \<lparr>selectedCountry = ''Brazil'', populationGrowth = ''1.1'', exportsGrowth = ''5.2'',
      importsGrowth = ''4.8'', investment = ''3.5'', consumption = ''2.8'',
      governmentSpending = ''2.0'', isCalculating = False, prediction_value = None,
      historicalData = history_to_2021, showPrediction = False, confidenceScore = 94,
      contributionData = [], isLoadingHistory = False, historyError = None,
      predictionMethod = [], apiError = None, countries = [''Brazil''],
      isLoadingCountries = False\<rparr>"

definition example_state_no_spending :: dashboard_state where
  "example_state_no_spending = example_state\<lparr>governmentSpending := []\<rparr>"

definition offline_api :: "string api_service" where
  "offline_api =
     \<lparr>submitPrediction = (\<lambda>body. Inl ''Failed to fetch''),
      fetchHistoricalData = (\<lambda>country. Inl ''Failed to fetch''),
      handleApiError = (\<lambda>error. ''Unable to connect to server'')\<rparr>"

subsection \<open>Data frames\<close>

text \<open>The records of one entity, in the order of the frame.\<close>

definition entity_rows ::
  "string \<Rightarrow> ('a indicator_row_scheme) list \<Rightarrow> ('a indicator_row_scheme) list" where
  "entity_rows c df = filter (\<lambda>r. Country r = c) df"

text \<open>
  A chronologically ordered stream: the years of every entity's records increase along
  the stream.
\<close>

definition chronological :: "indicator_row list \<Rightarrow> bool" where
  "chronological df \<longleftrightarrow>
     (\<forall>c \<in> set (map Country df). sorted_wrt (<) (map Year (entity_rows c df)))"

text \<open>A record with no missing cell.\<close>

definition complete_row :: "indicator_row \<Rightarrow> bool" where
  "complete_row r \<longleftrightarrow>
     GDP_Growth_Rate r \<noteq> None \<and> Population_Growth_Rate r \<noteq> None \<and>
     Exports_Growth_Rate r \<noteq> None \<and> Imports_Growth_Rate r \<noteq> None \<and>
     Investment_Growth_Rate r \<noteq> None \<and> Consumption_Growth_Rate r \<noteq> None \<and>
     Govt_Spend_Growth_Rate r \<noteq> None"

text \<open>Years without a gap: each is the year before plus one.\<close>

fun contiguous_years :: "int list \<Rightarrow> bool" where
  "contiguous_years (y # z # ys) \<longleftrightarrow> z = y + 1 \<and> contiguous_years (z # ys)"
| "contiguous_years _ \<longleftrightarrow> True"

text \<open>The six indicator cells of a line, and the six lagged cells of an output line.\<close>

definition indicator_values :: "'a indicator_row_scheme \<Rightarrow> real option list" where
  "indicator_values r =
     [Population_Growth_Rate r, Exports_Growth_Rate r, Imports_Growth_Rate r,
      Investment_Growth_Rate r, Consumption_Growth_Rate r, Govt_Spend_Growth_Rate r]"

definition lag_values :: "lagged_row \<Rightarrow> real option list" where
  "lag_values r =
     [Population_Growth_Rate_Lag1 r, Exports_Growth_Rate_Lag1 r, Imports_Growth_Rate_Lag1 r,
      Investment_Growth_Rate_Lag1 r, Consumption_Growth_Rate_Lag1 r,
      Govt_Spend_Growth_Rate_Lag1 r]"

text \<open>
  The output line built from a record and the record found for it by the shift, if
  any; \<open>with_lags r p\<close> is the line of \<open>r\<close> that carries the values of \<open>p\<close>.
\<close>

definition lag_line :: "indicator_row \<Rightarrow> indicator_row option \<Rightarrow> lagged_row" where
  "lag_line r prev =
     indicator_row.extend r
       (lagged_row.fields
          (Option.bind prev Population_Growth_Rate) (Option.bind prev Exports_Growth_Rate)
          (Option.bind prev Imports_Growth_Rate) (Option.bind prev Investment_Growth_Rate)
          (Option.bind prev Consumption_Growth_Rate) (Option.bind prev Govt_Spend_Growth_Rate))"

definition with_lags :: "indicator_row \<Rightarrow> indicator_row \<Rightarrow> lagged_row" where
  "with_lags r p = lag_line r (Some p)"

text \<open>
  A list moved down by one place, and the output lines of a run of records each
  carrying the values of the one before it.
\<close>

fun shifted :: "'a option \<Rightarrow> 'a list \<Rightarrow> 'a option list" where
  "shifted first [] = []"
| "shifted first (y # ys) = first # shifted (Some y) ys"

fun lagged_from :: "indicator_row \<Rightarrow> indicator_row list \<Rightarrow> lagged_row list" where
  "lagged_from p [] = []"
| "lagged_from p (r # rs) = with_lags r p # lagged_from r rs"

definition example_row :: "string \<Rightarrow> int \<Rightarrow> real \<Rightarrow> indicator_row" where
  "example_row c y v =
     \<lparr>Country = c, Year = y, GDP_Growth_Rate = Some v,
      Population_Growth_Rate = Some (v + 1), Exports_Growth_Rate = Some (v + 2),
      Imports_Growth_Rate = Some (v + 3), Investment_Growth_Rate = Some (v + 4),
      Consumption_Growth_Rate = Some (v + 5), Govt_Spend_Growth_Rate = Some (v + 6)\<rparr>"

definition frame_2017_2020 :: "indicator_row list" where
  "frame_2017_2020 = map (\<lambda>y. example_row ''Brazil'' y 1) [2020, 2017, 2019, 2018]"

definition frame_two_entities :: "indicator_row list" where
  "frame_two_entities =
     [example_row ''Brazil'' 2000 1, example_row ''Chile'' 2010 2, example_row ''Brazil'' 2001 3,
      example_row ''Brazil'' 2002 4, example_row ''Chile'' 2011 5]"

text \<open>Brazil has a record for 2000 and one for 2002, and none for 2001.\<close>

definition gap_frame :: "indicator_row list" where
  "gap_frame = [example_row ''Brazil'' 2000 1, example_row ''Brazil'' 2002 2]"

section \<open>The lagged features\<close>

subsection \<open>The shift within a group\<close>

lemma length_group_prev: "length (group_prev seen df) = length df"
  by (induction df arbitrary: seen) simp_all

lemma assign_lags_shift:
  "assign_lags df
     (groupby_shift Population_Growth_Rate df) (groupby_shift Exports_Growth_Rate df)
     (groupby_shift Imports_Growth_Rate df) (groupby_shift Investment_Growth_Rate df)
     (groupby_shift Consumption_Growth_Rate df) (groupby_shift Govt_Spend_Growth_Rate df) =
   map (\<lambda>(r, prev). lag_line r prev) (zip df (group_prev [] df))"
  by (rule nth_equalityI)
     (simp_all add: assign_lags_def groupby_shift_def length_group_prev lag_line_def)

lemma create_lagged_features_zip:
  "create_lagged_features df =
     dropna (map (\<lambda>(r, prev). lag_line r prev)
               (zip (sort_values df) (group_prev [] (sort_values df))))"
  by (simp add: create_lagged_features_def Let_def assign_lags_shift)

lemma group_prev_entity:
  "filter (\<lambda>(r, prev). Country r = c) (zip df (group_prev seen df)) =
   zip (entity_rows c df) (shifted (find (\<lambda>p. Country p = c) seen) (entity_rows c df))"
  by (induction df arbitrary: seen) (auto simp: entity_rows_def)

lemma Country_lag_line [simp]: "Country (lag_line r prev) = Country r"
  by (simp add: lag_line_def indicator_row.extend_def)

lemma Year_lag_line [simp]: "Year (lag_line r prev) = Year r"
  by (simp add: lag_line_def indicator_row.extend_def)

lemma truncate_lag_line [simp]: "indicator_row.truncate (lag_line r prev) = r"
  by (simp add: lag_line_def indicator_row.extend_def indicator_row.truncate_def)

lemma lag_values_lag_line [simp]: "lag_values (lag_line r (Some p)) = indicator_values p"
  by (simp add: lag_line_def indicator_row.extend_def lag_values_def indicator_values_def
        lagged_row.fields_def)

lemma no_missing_first [simp]: "\<not> no_missing (lag_line r None)"
  by (simp add: no_missing_def lag_line_def indicator_row.extend_def lagged_row.fields_def)

lemma no_missing_later:
  "complete_row r \<Longrightarrow> complete_row p \<Longrightarrow> no_missing (lag_line r (Some p))"
  by (simp add: no_missing_def lag_line_def indicator_row.extend_def lagged_row.fields_def
        complete_row_def)

subsection \<open>The records of one entity\<close>

lemma entity_rows_sorted_key:
  assumes "sorted_wrt (<) (map Year (entity_rows c df))"
  shows "sorted (map (\<lambda>r. (Country r, Year r)) (entity_rows c df))"
proof -
  have "sorted_wrt (\<lambda>x y. Year x < Year y) (entity_rows c df)"
    using assms by (simp add: sorted_wrt_map)
  then have "sorted_wrt (\<lambda>x y. (Country x, Year x) \<le> (Country y, Year y)) (entity_rows c df)"
    by (rule sorted_wrt_mono_rel [rotated]) (auto simp: entity_rows_def less_eq_prod_def)
  then show ?thesis by (simp add: sorted_map)
qed

lemma entity_rows_chronological:
  assumes "chronological df"
  shows "sorted_wrt (<) (map Year (entity_rows c df))"
proof (cases "c \<in> set (map Country df)")
  case True
  then show ?thesis using assms unfolding chronological_def by blast
next
  case False
  then have "entity_rows c df = []"
    by (auto simp: entity_rows_def filter_empty_conv)
  then show ?thesis by simp
qed

lemma entity_rows_sort_values:
  assumes "chronological df"
  shows "entity_rows c (sort_values df) = entity_rows c df"
proof -
  have "entity_rows c (sort_values df) = sort_key (\<lambda>r. (Country r, Year r)) (entity_rows c df)"
    by (simp add: entity_rows_def sort_values_def filter_sort)
  also have "\<dots> = entity_rows c df"
    by (rule sort_key_id_if_sorted)
       (rule entity_rows_sorted_key [OF entity_rows_chronological [OF assms]])
  finally show ?thesis .
qed

lemma dropna_shifted:
  assumes "complete_row p" "\<forall>r \<in> set rs. complete_row r"
  shows "dropna (map (\<lambda>(r, prev). lag_line r prev) (zip rs (shifted (Some p) rs))) =
         lagged_from p rs"
  using assms
  by (induction rs arbitrary: p) (simp_all add: dropna_def no_missing_later with_lags_def)

lemma entity_rows_created:
  assumes "chronological df" "\<forall>r \<in> set (entity_rows c df). complete_row r"
  shows "entity_rows c (create_lagged_features df) =
           (case entity_rows c df of [] \<Rightarrow> [] | first # rest \<Rightarrow> lagged_from first rest)"
proof -
  let ?S = "sort_values df"
  have "entity_rows c (create_lagged_features df) =
          dropna (map (\<lambda>(r, prev). lag_line r prev)
                    (filter (\<lambda>(r, prev). Country r = c) (zip ?S (group_prev [] ?S))))"
    by (simp add: create_lagged_features_zip entity_rows_def dropna_def filter_map comp_def
          case_prod_unfold conj_commute)
  also have "\<dots> = dropna (map (\<lambda>(r, prev). lag_line r prev)
                    (zip (entity_rows c df) (shifted None (entity_rows c df))))"
    by (simp add: group_prev_entity entity_rows_sort_values [OF assms(1)])
  also have "\<dots> = (case entity_rows c df of [] \<Rightarrow> [] | first # rest \<Rightarrow> lagged_from first rest)"
  proof (cases "entity_rows c df")
    case Nil
    then show ?thesis by (simp add: dropna_def)
  next
    case (Cons first rest)
    then have "complete_row first" "\<forall>r \<in> set rest. complete_row r"
      using assms(2) by auto
    then show ?thesis
      using dropna_shifted [of first rest] by (simp add: Cons dropna_def)
  qed
  finally show ?thesis .
qed

lemma truncate_lagged_from: "map indicator_row.truncate (lagged_from p rs) = rs"
  by (induction rs arbitrary: p) (simp_all add: with_lags_def)

lemma lagged_from_predecessor:
  assumes "r \<in> set rs"
  shows "\<exists>pre q post. p # rs = pre @ q # r # post \<and> with_lags r q \<in> set (lagged_from p rs)"
  using assms
proof (induction rs arbitrary: p)
  case Nil
  then show ?case by simp
next
  case (Cons x rs)
  show ?case
  proof (cases "r = x")
    case True
    have "p # x # rs = [] @ p # r # rs" using True by simp
    moreover have "with_lags r p \<in> set (lagged_from p (x # rs))" using True by simp
    ultimately show ?thesis by blast
  next
    case False
    then have "r \<in> set rs" using Cons.prems by simp
    from Cons.IH [OF this, of x] obtain pre q post where
      a: "x # rs = pre @ q # r # post" and b: "with_lags r q \<in> set (lagged_from x rs)"
      by blast
    have "p # x # rs = (p # pre) @ q # r # post" using a by simp
    moreover have "with_lags r q \<in> set (lagged_from p (x # rs))" using b by simp
    ultimately show ?thesis by blast
  qed
qed

lemma shifted_earlier:
  assumes "sorted_wrt (<) (map Year ys)"
      and "\<forall>q. first = Some q \<longrightarrow> (\<forall>y \<in> set ys. Year q < Year y)"
      and "(r, Some p) \<in> set (zip ys (shifted first ys))"
  shows "Year p < Year r \<and> (first = Some p \<or> p \<in> set ys)"
  using assms
proof (induction ys arbitrary: first)
  case Nil
  then show ?case by simp
next
  case (Cons y ys)
  from Cons.prems(3) consider "r = y" "first = Some p"
    | "(r, Some p) \<in> set (zip ys (shifted (Some y) ys))" by auto
  then show ?case
  proof cases
    case 1
    then show ?thesis using Cons.prems(2) by simp
  next
    case 2
    have "sorted_wrt (<) (map Year ys)" using Cons.prems(1) by simp
    moreover have "\<forall>q. Some y = Some q \<longrightarrow> (\<forall>z \<in> set ys. Year q < Year z)"
      using Cons.prems(1) by simp
    ultimately have "Year p < Year r \<and> (Some y = Some p \<or> p \<in> set ys)"
      using 2 by (rule Cons.IH)
    then show ?thesis by auto
  qed
qed

lemma created_row_source:
  assumes "chronological df" and row: "row \<in> set (create_lagged_features df)"
  shows "\<exists>p \<in> set df. Country p = Country row \<and> Year p < Year row \<and>
           lag_values row = indicator_values p"
proof -
  let ?S = "sort_values df"
  from row obtain r prev where pair: "(r, prev) \<in> set (zip ?S (group_prev [] ?S))"
    and line: "row = lag_line r prev" and kept: "no_missing row"
    by (auto simp: create_lagged_features_zip dropna_def)
  from line kept obtain p where prev: "prev = Some p"
    by (cases prev) simp_all
  define c where "c = Country r"
  have "(r, Some p) \<in> set (filter (\<lambda>(r, prev). Country r = c) (zip ?S (group_prev [] ?S)))"
    using pair by (simp add: prev c_def)
  then have in_entity: "(r, Some p) \<in> set (zip (entity_rows c df) (shifted None (entity_rows c df)))"
    by (simp add: group_prev_entity entity_rows_sort_values [OF assms(1)])
  have "Year p < Year r \<and> (None = Some p \<or> p \<in> set (entity_rows c df))"
    by (rule shifted_earlier [OF entity_rows_chronological [OF assms(1)] _ in_entity]) simp
  then have "Year p < Year r" "p \<in> set df" "Country p = c"
    by (simp_all add: entity_rows_def)
  then show ?thesis
    by (auto simp: line prev c_def)
qed

subsection \<open>No look-ahead\<close>

lemma example_row_simps [simp]:
  "Country (example_row c y v) = c" "Year (example_row c y v) = y"
  "complete_row (example_row c y v)"
  by (simp_all add: example_row_def complete_row_def)

lemma example_row_eq [simp]:
  "example_row c y v = example_row c' y' v' \<longleftrightarrow> c = c' \<and> y = y' \<and> v = v'"
  by (auto simp: example_row_def)

text \<open>
  C1. In a chronologically ordered stream, every line that \<^verbatim>\<open>create_lagged_features\<close>
  emits carries in its six lagged cells the six indicator values of a record of the
  same country whose year is strictly below the line's own year. For an entity whose
  years are contiguous (and whose records have no missing cell, which \<^verbatim>\<open>dropna\<close> would
  remove as well) it emits one line less than the entity has records: the lines of all
  its records but the earliest, in order.
\<close>

theorem lagged_features_no_lookahead:
  assumes "chronological df"
  shows "(\<forall>row \<in> set (create_lagged_features df).
            \<exists>p \<in> set df. Country p = Country row \<and> Year p < Year row \<and>
                           lag_values row = indicator_values p) \<and>
         (\<forall>c. contiguous_years (map Year (entity_rows c df)) \<and>
              (\<forall>r \<in> set (entity_rows c df). complete_row r) \<longrightarrow>
              length (entity_rows c (create_lagged_features df)) =
                length (entity_rows c df) - 1 \<and>
              map indicator_row.truncate (entity_rows c (create_lagged_features df)) =
                tl (entity_rows c df))"
proof (intro conjI ballI allI impI)
  fix row
  assume "row \<in> set (create_lagged_features df)"
  then show "\<exists>p \<in> set df. Country p = Country row \<and> Year p < Year row \<and>
                 lag_values row = indicator_values p"
    by (rule created_row_source [OF assms])
next
  fix c
  assume "contiguous_years (map Year (entity_rows c df)) \<and>
          (\<forall>r \<in> set (entity_rows c df). complete_row r)"
  then have complete: "\<forall>r \<in> set (entity_rows c df). complete_row r" ..
  have eq: "map indicator_row.truncate (entity_rows c (create_lagged_features df)) =
          tl (entity_rows c df)"
    by (simp add: entity_rows_created [OF assms complete] truncate_lagged_from
          split: list.splits)
  show "map indicator_row.truncate (entity_rows c (create_lagged_features df)) =
          tl (entity_rows c df)" by (rule eq)
  have "length (map indicator_row.truncate (entity_rows c (create_lagged_features df))) =
          length (tl (entity_rows c df))"
    by (simp only: eq)
  then show "length (entity_rows c (create_lagged_features df)) = length (entity_rows c df) - 1"
    by simp
qed

theorem lagged_features_no_lookahead_witness:
  "chronological frame_two_entities \<and> list_all complete_row frame_two_entities \<and>
   contiguous_years (map Year (entity_rows ''Brazil'' frame_two_entities)) \<and>
   length (entity_rows ''Brazil'' (create_lagged_features frame_two_entities)) = 2 \<and>
   map indicator_row.truncate (entity_rows ''Brazil'' (create_lagged_features frame_two_entities)) =
     [example_row ''Brazil'' 2001 3, example_row ''Brazil'' 2002 4] \<and>
   with_lags (example_row ''Brazil'' 2001 3) (example_row ''Brazil'' 2000 1)
     \<in> set (create_lagged_features frame_two_entities) \<and>
   (\<exists>p \<in> set frame_two_entities.
      Country p = ''Brazil'' \<and> Year p < 2001 \<and>
      lag_values (with_lags (example_row ''Brazil'' 2001 3) (example_row ''Brazil'' 2000 1)) =
        indicator_values p)"
proof -
  let ?row = "with_lags (example_row ''Brazil'' 2001 3) (example_row ''Brazil'' 2000 1)"
  have h1: "chronological frame_two_entities"
    by (simp add: chronological_def frame_two_entities_def entity_rows_def)
  have h2: "\<forall>r \<in> set frame_two_entities. complete_row r"
    by (simp add: frame_two_entities_def)
  have e: "entity_rows ''Brazil'' frame_two_entities =
             [example_row ''Brazil'' 2000 1, example_row ''Brazil'' 2001 3,
              example_row ''Brazil'' 2002 4]"
    by (simp add: frame_two_entities_def entity_rows_def)
  have h3: "contiguous_years (map Year (entity_rows ''Brazil'' frame_two_entities))"
    by (simp add: e)
  have h4: "\<forall>r \<in> set (entity_rows ''Brazil'' frame_two_entities). complete_row r"
    by (simp add: e)
  note count = lagged_features_no_lookahead [OF h1, THEN conjunct2, THEN spec, THEN mp,
      OF conjI [OF h3 h4]]
  have "?row \<in> set (entity_rows ''Brazil'' (create_lagged_features frame_two_entities))"
    by (simp add: entity_rows_created [OF h1 h4] e)
  then have h5: "?row \<in> set (create_lagged_features frame_two_entities)"
    by (simp add: entity_rows_def)
  note source = lagged_features_no_lookahead [OF h1, THEN conjunct1, THEN bspec, OF h5]
  have "\<exists>p \<in> set frame_two_entities.
      Country p = ''Brazil'' \<and> Year p < 2001 \<and> lag_values ?row = indicator_values p"
    using source by (simp add: with_lags_def)
  then show ?thesis
    using h1 h2 h3 h5 count by (simp add: e list_all_iff)
qed

subsection \<open>A gap in the years\<close>

text \<open>
  C2. Brazil has a record for 2000 and for 2002 and none for 2001. The line for 2002 is
  not dropped: it is the one line emitted, and its lagged cells, which the comments of
  the function describe as the values of year \<open>T - 1\<close>, hold the values of 2000.
\<close>

theorem lagged_features_gap_row_kept:
  "map Year gap_frame = [2000, 2002] \<and>
   create_lagged_features gap_frame =
     [with_lags (example_row ''Brazil'' 2002 2) (example_row ''Brazil'' 2000 1)] \<and>
   lag_values (with_lags (example_row ''Brazil'' 2002 2) (example_row ''Brazil'' 2000 1)) =
     indicator_values (example_row ''Brazil'' 2000 1)"
proof -
  have s: "sort_values gap_frame = gap_frame"
    by (simp add: sort_values_def gap_frame_def less_eq_prod_def)
  have "create_lagged_features gap_frame =
     [with_lags (example_row ''Brazil'' 2002 2) (example_row ''Brazil'' 2000 1)]"
    unfolding create_lagged_features_zip s
    by (simp add: gap_frame_def dropna_def with_lags_def no_missing_later)
  then show ?thesis by (simp add: gap_frame_def with_lags_def)
qed

text \<open>
  The same for every stream: a record that is not its entity's earliest and has no
  record the year before is emitted with the values of the entity's latest earlier
  record.
\<close>

lemma lagged_features_gap:
  assumes "chronological df" and "\<forall>r \<in> set df. complete_row r"
      and "r \<in> set df"
      and gap: "\<forall>p \<in> set df. Country p = Country r \<longrightarrow> Year p \<noteq> Year r - 1"
      and earlier: "\<exists>p \<in> set df. Country p = Country r \<and> Year p < Year r"
  shows "\<exists>p \<in> set df. Country p = Country r \<and> Year p < Year r - 1 \<and>
           (\<forall>q \<in> set df. Country q = Country r \<and> Year q < Year r \<longrightarrow> Year q \<le> Year p) \<and>
           with_lags r p \<in> set (create_lagged_features df)"
proof -
  define c where "c = Country r"
  have sorted: "sorted_wrt (<) (map Year (entity_rows c df))"
    by (rule entity_rows_chronological [OF assms(1)])
  have r_in: "r \<in> set (entity_rows c df)"
    using assms(3) by (simp add: entity_rows_def c_def)
  then obtain first rest where ec: "entity_rows c df = first # rest"
    by (cases "entity_rows c df") auto
  from earlier obtain e where e: "e \<in> set df" "Country e = Country r" "Year e < Year r"
    by blast
  then have e_in: "e \<in> set (first # rest)"
    by (simp add: ec [symmetric] entity_rows_def c_def)
  have "r \<noteq> first"
  proof
    assume "r = first"
    then have "\<forall>x \<in> set rest. Year r < Year x" using sorted by (simp add: ec)
    with e_in e(3) \<open>r = first\<close> show False by auto
  qed
  then have "r \<in> set rest" using r_in by (simp add: ec)
  from lagged_from_predecessor [OF this, of first] obtain pre p post where
    split: "first # rest = pre @ p # r # post"
    and emitted: "with_lags r p \<in> set (lagged_from first rest)"
    by blast
  have "\<forall>x \<in> set (entity_rows c df). complete_row x"
    using assms(2) by (simp add: entity_rows_def)
  then have "with_lags r p \<in> set (entity_rows c (create_lagged_features df))"
    using emitted by (simp add: entity_rows_created [OF assms(1)] ec)
  then have out: "with_lags r p \<in> set (create_lagged_features df)"
    by (simp add: entity_rows_def)
  have years: "sorted_wrt (<) (map Year (pre @ p # r # post))"
    using sorted by (simp add: ec split)
  have p_in: "p \<in> set (entity_rows c df)" by (simp add: ec split)
  then have p_df: "p \<in> set df" "Country p = Country r"
    by (simp_all add: entity_rows_def c_def)
  have "Year p < Year r" using years by (simp add: sorted_wrt_append)
  moreover have "Year p \<noteq> Year r - 1" using gap p_df by blast
  ultimately have before: "Year p < Year r - 1" by linarith
  have latest: "Year q \<le> Year p"
    if "q \<in> set df" "Country q = Country r \<and> Year q < Year r" for q
  proof -
    have "q \<in> set (pre @ p # r # post)"
      using that by (simp add: split [symmetric] ec [symmetric] entity_rows_def c_def)
    then consider "q \<in> set pre" | "q = p" | "q = r" | "q \<in> set post" by auto
    then show ?thesis
    proof cases
      case 1
      then show ?thesis using years by (auto simp: sorted_wrt_append)
    next
      case 2
      then show ?thesis by simp
    next
      case 3
      then show ?thesis using that by simp
    next
      case 4
      then have "Year r < Year q" using years by (auto simp: sorted_wrt_append)
      then show ?thesis using that by simp
    qed
  qed
  show ?thesis
    using p_df before latest out by blast
qed

lemma lagged_features_gap_example:
  "chronological gap_frame \<and> list_all complete_row gap_frame \<and>
   example_row ''Brazil'' 2002 2 \<in> set gap_frame \<and>
   Year (example_row ''Brazil'' 2002 2) - 1 \<notin> Year ` set gap_frame \<and>
   Year (example_row ''Brazil'' 2000 1) < Year (example_row ''Brazil'' 2002 2) \<and>
   with_lags (example_row ''Brazil'' 2002 2) (example_row ''Brazil'' 2000 1)
     \<in> set (create_lagged_features gap_frame)"
proof -
  let ?r = "example_row ''Brazil'' 2002 2"
  have h1: "chronological gap_frame"
    by (simp add: chronological_def gap_frame_def entity_rows_def)
  have h2: "\<forall>r \<in> set gap_frame. complete_row r"
    by (simp add: gap_frame_def)
  have h3: "?r \<in> set gap_frame" by (simp add: gap_frame_def)
  have h4: "\<forall>p \<in> set gap_frame. Country p = Country ?r \<longrightarrow> Year p \<noteq> Year ?r - 1"
    by (simp add: gap_frame_def)
  have h5: "\<exists>p \<in> set gap_frame. Country p = Country ?r \<and> Year p < Year ?r"
    by (simp add: gap_frame_def)
  from lagged_features_gap [OF h1 h2 h3 h4 h5] obtain p where
    p: "p \<in> set gap_frame" "Year p < Year ?r - 1"
       "with_lags ?r p \<in> set (create_lagged_features gap_frame)"
    by blast
  have "p = example_row ''Brazil'' 2000 1"
    using p(1,2) by (auto simp: gap_frame_def)
  with p(3) have "with_lags ?r (example_row ''Brazil'' 2000 1)
     \<in> set (create_lagged_features gap_frame)" by simp
  then show ?thesis
    using h1 by (simp add: gap_frame_def)
qed

section \<open>The temporal split\<close>

text \<open>
  C3. For every frame and every split year, \<^verbatim>\<open>temporal_train_test_split\<close> returns as
  training frame exactly the lines whose year is below the split year and as test frame
  exactly the lines whose year is at or above it, both in the order of the input; and
  when neither is empty, the largest training year is below the smallest test year.
\<close>

theorem temporal_split_partition:
  fixes df :: "('a indicator_row_scheme) list"
  shows "(case temporal_train_test_split df y of (train, test) \<Rightarrow>
           train = filter (\<lambda>r. Year r < y) df \<and>
           test = filter (\<lambda>r. Year r \<ge> y) df \<and>
           subseq train df \<and> subseq test df \<and>
           (train \<noteq> [] \<and> test \<noteq> [] \<longrightarrow> Max (Year ` set train) < Min (Year ` set test)))"
proof -
  define train where "train = filter (\<lambda>r. Year r < y) df"
  define test where "test = filter (\<lambda>r. Year r \<ge> y) df"
  have split: "temporal_train_test_split df y = (train, test)"
    by (simp add: temporal_train_test_split_def train_def test_def)
  have order: "subseq train df" "subseq test df"
    by (simp_all add: train_def test_def)
  have gap: "Max (Year ` set train) < Min (Year ` set test)" if ne: "train \<noteq> []" "test \<noteq> []"
  proof -
    have "Max (Year ` set train) < y"
    proof -
      have "\<forall>a\<in>Year ` set train. a < y" by (auto simp: train_def)
      moreover have "Year ` set train \<noteq> {}" using ne by simp
      ultimately show ?thesis by (simp add: Max_less_iff)
    qed
    moreover have "y \<le> Min (Year ` set test)"
    proof -
      have "\<forall>a\<in>Year ` set test. y \<le> a" by (auto simp: test_def)
      moreover have "Year ` set test \<noteq> {}" using ne by simp
      ultimately show ?thesis by (simp add: Min_ge_iff)
    qed
    ultimately show ?thesis by linarith
  qed
  show ?thesis
    unfolding split using order gap by (simp add: train_def test_def)
qed

theorem temporal_split_partition_witness:
  "fst (temporal_train_test_split frame_2017_2020 2019) \<noteq> [] \<and>
   snd (temporal_train_test_split frame_2017_2020 2019) \<noteq> [] \<and>
   map Year (fst (temporal_train_test_split frame_2017_2020 2019)) = [2017, 2018] \<and>
   map Year (snd (temporal_train_test_split frame_2017_2020 2019)) = [2020, 2019] \<and>
   Max (Year ` set (fst (temporal_train_test_split frame_2017_2020 2019)))
     < Min (Year ` set (snd (temporal_train_test_split frame_2017_2020 2019)))"
  using temporal_split_partition [where df = frame_2017_2020 and y = 2019]
  by (simp add: temporal_train_test_split_def frame_2017_2020_def example_row_def)

section \<open>Request validation\<close>

lemma missing_filter: "filter (\<lambda>f. data f = None) fs = filter (\<lambda>f. f \<notin> dom data) fs"
  by (simp add: domIff)

text \<open>
  C4. When one or more of the seven required fields is absent from the request,
  \<^verbatim>\<open>validate_prediction_input\<close> answers invalid, with the message that lists all the
  absent names (each once, in the order of the required list) and with no validated
  data, whatever the other fields hold: the check comes before every other one.
\<close>

theorem validate_missing_fields:
  assumes "\<exists>f \<in> set required_fields. f \<notin> dom data"
  shows "validate_prediction_input rt data =
           Inr (False,
                Some (''Missing required fields: '' @
                      py_join '', '' (filter (\<lambda>f. f \<notin> dom data) required_fields)),
                None) \<and>
         set (filter (\<lambda>f. f \<notin> dom data) required_fields) =
           {f \<in> set required_fields. f \<notin> dom data} \<and>
         distinct (filter (\<lambda>f. f \<notin> dom data) required_fields) \<and>
         length required_fields = 7"
proof -
  have ne: "filter (\<lambda>f. f \<notin> dom data) required_fields \<noteq> []"
    using assms by (simp add: filter_empty_conv)
  have "validate_prediction_input rt data =
           Inr (False,
                Some (''Missing required fields: '' @
                      py_join '', '' (filter (\<lambda>f. f \<notin> dom data) required_fields)),
                None)"
    unfolding validate_prediction_input_def missing_filter Let_def using ne by simp
  moreover have "distinct required_fields" "length required_fields = 7"
    by (simp_all add: required_fields_def)
  ultimately show ?thesis by simp
qed

theorem validate_missing_fields_witness:
  "(\<exists>f \<in> set required_fields. f \<notin> dom payload_usa_partial) \<and>
   validate_prediction_input example_runtime payload_usa_partial =
     Inr (False,
          Some ''Missing required fields: Exports, Imports, Investment, Consumption, Govt_Spend'',
          None)"
proof -
  have h: "\<exists>f \<in> set required_fields. f \<notin> dom payload_usa_partial"
    by (rule bexI [of _ "''Exports''"])
       (simp_all add: required_fields_def payload_usa_partial_def domIff)
  have m: "filter (\<lambda>f. f \<notin> dom payload_usa_partial) required_fields =
             [''Exports'', ''Imports'', ''Investment'', ''Consumption'', ''Govt_Spend'']"
    by (simp add: required_fields_def payload_usa_partial_def domIff)
  show ?thesis
    using h validate_missing_fields [OF h, of example_runtime] unfolding m by simp
qed

subsection \<open>The checks on a complete request\<close>

lemma accepted_Inr:
  "coerced rt data g = Inr v \<Longrightarrow> accepted rt data g vd = AList.update g (PFloat v) vd"
  by (simp add: accepted_def)

lemma validate_numeric_passes:
  "\<forall>g \<in> set pre. field_passes rt data g \<Longrightarrow>
   validate_numeric rt data (pre @ rest) vd =
   validate_numeric rt data rest (fold (accepted rt data) pre vd)"
proof (induction pre arbitrary: vd)
  case Nil
  then show ?case by simp
next
  case (Cons g pre)
  from Cons.prems obtain v where v: "coerced rt data g = Inr v" "in_range v"
    by (auto simp: field_passes_def split: sum.splits)
  have "validate_numeric rt data ((g # pre) @ rest) vd =
        validate_numeric rt data (pre @ rest) (AList.update g (PFloat v) vd)"
    using v by simp
  also have "\<dots> = validate_numeric rt data rest
                     (fold (accepted rt data) pre (AList.update g (PFloat v) vd))"
    using Cons.prems by (intro Cons.IH) simp
  finally show ?case using v by (simp add: accepted_Inr)
qed

lemma validate_present:
  assumes "\<forall>f \<in> set required_fields. f \<in> dom data" and "data ''Country'' = Some cj"
  shows "validate_prediction_input rt data =
           (if py_strip (py_str rt cj) = []
            then Inr (False, Some ''Country name cannot be empty'', None)
            else validate_numeric rt data numeric_fields
                   [(''Country'', PStr (py_strip (py_str rt cj)))])"
proof -
  have "filter (\<lambda>f. f \<notin> dom data) required_fields = []"
    using assms(1) by (simp add: filter_empty_conv)
  then show ?thesis
    unfolding validate_prediction_input_def missing_filter Let_def
    using assms(2) by simp
qed

lemma validate_numeric_invalid:
  assumes "\<forall>g \<in> set pre. field_passes rt data g"
      and "coerced rt data f = Inl ValueError \<or> coerced rt data f = Inl TypeError"
  shows "validate_numeric rt data (pre @ f # post) vd =
           Inr (False, Some (''Invalid '' @ f @ '' value: must be a number''), None)"
  using assms(2) by (auto simp: validate_numeric_passes [OF assms(1)])

lemma validate_numeric_out_of_range:
  assumes "\<forall>g \<in> set pre. field_passes rt data g"
      and "coerced rt data f = Inr v" and "\<not> in_range v"
  shows "validate_numeric rt data (pre @ f # post) vd =
           Inr (False,
                Some (f @ '' value '' @ str_of_float rt v @ '' is outside reasonable range''),
                None)"
  using assms(2,3) by (simp add: validate_numeric_passes [OF assms(1)])

lemma validate_numeric_all_pass:
  assumes "\<forall>g \<in> set numeric_fields. field_passes rt data g"
  shows "\<exists>vs. list_all2 (\<lambda>g v. coerced rt data g = Inr v \<and> in_range v) numeric_fields vs \<and>
         validate_numeric rt data numeric_fields [(''Country'', PStr c)] =
           Inr (True, None, Some ((''Country'', PStr c) # zip numeric_fields (map PFloat vs)))"
proof -
  from assms obtain v1 v2 v3 v4 v5 v6 where v:
    "coerced rt data ''Population'' = Inr v1" "in_range v1"
    "coerced rt data ''Exports'' = Inr v2" "in_range v2"
    "coerced rt data ''Imports'' = Inr v3" "in_range v3"
    "coerced rt data ''Investment'' = Inr v4" "in_range v4"
    "coerced rt data ''Consumption'' = Inr v5" "in_range v5"
    "coerced rt data ''Govt_Spend'' = Inr v6" "in_range v6"
    unfolding numeric_fields_def field_passes_def
    by (auto split: sum.splits)
  have "validate_numeric rt data numeric_fields [(''Country'', PStr c)] =
          Inr (True, None,
            Some ((''Country'', PStr c) # zip numeric_fields (map PFloat [v1, v2, v3, v4, v5, v6])))"
    using v by (simp add: numeric_fields_def)
  moreover have "list_all2 (\<lambda>g v. coerced rt data g = Inr v \<and> in_range v) numeric_fields
                   [v1, v2, v3, v4, v5, v6]"
    using v by (simp add: numeric_fields_def)
  ultimately show ?thesis by blast
qed

lemma predict_unknown_country:
  assumes "validate_prediction_input rt data =
             Inr (True, None, Some ((''Country'', PStr c) # rest))"
      and "encoder app c = None"
  shows "predict rt app data =
           Json400 ''Unknown country''
             (Some (''Country '' @ [CHR 0x27] @ c @ [CHR 0x27] @ '' not found''))"
  using assms by (simp add: predict_def lookup_string_def)

subsection \<open>Evaluating the examples\<close>

lemma full_payload_present: "\<forall>f \<in> set required_fields. f \<in> dom (full_payload c p e)"
  by (simp add: required_fields_def full_payload_def)

lemma full_payload_fields:
  "full_payload c p e ''Country'' = Some c"
  "full_payload c p e ''Population'' = Some p"
  "full_payload c p e ''Exports'' = Some e"
  "full_payload c p e ''Imports'' = Some (JFloat (Fin (48 / 10)))"
  "full_payload c p e ''Investment'' = Some (JFloat (Fin (35 / 10)))"
  "full_payload c p e ''Consumption'' = Some (JFloat (Fin (28 / 10)))"
  "full_payload c p e ''Govt_Spend'' = Some (JFloat (Fin 2))"
  by (simp_all add: full_payload_def)

lemma float_abc: "float_of_str example_runtime ''abc'' = None"
  by (simp add: example_runtime_def)

lemma str_150: "str_of_float example_runtime (Fin 150) = ''150.0''"
  by (simp add: example_runtime_def int_toString_def)

lemma strip_examples: "py_strip ''  '' = []" "py_strip ''USA'' = ''USA''" "py_strip ''Brazil'' = ''Brazil''"
  by (simp_all add: py_strip_def py_isspace_def)

lemma validate_brazil:
  "validate_prediction_input rt payload_brazil =
     Inr (True, None,
          Some [(''Country'', PStr ''Brazil''), (''Population'', PFloat (Fin (11 / 10))),
                (''Exports'', PFloat (Fin (52 / 10))), (''Imports'', PFloat (Fin (48 / 10))),
                (''Investment'', PFloat (Fin (35 / 10))), (''Consumption'', PFloat (Fin (28 / 10))),
                (''Govt_Spend'', PFloat (Fin 2))])"
  by (simp add: validate_present [OF full_payload_present full_payload_fields(1)]
        payload_brazil_def py_str_def strip_examples numeric_fields_def
        coerced_def full_payload_fields py_float_def)

text \<open>
  C5. A request whose \<^verbatim>\<open>Population\<close> is 150, everything checked before it passing, is
  answered with a message that names the field and echoes the value; the message of the
  function ends there and states neither bound, unlike the answer the same document
  shows for this request, which ends in \<^verbatim>\<open>(-100 to 100)\<close>.
\<close>

theorem validate_out_of_range_message:
  "validate_prediction_input example_runtime payload_population_150 =
     Inr (False, Some ''Population value 150.0 is outside reasonable range'', None)"
  by (simp add: validate_present [OF full_payload_present full_payload_fields(1)]
        payload_population_150_def py_str_def strip_examples numeric_fields_def
        coerced_def full_payload_fields py_float_def str_150)

text \<open>
  C6, as stated, fails: with a blank country and an unreadable \<^verbatim>\<open>Population\<close> the
  answer is the empty-country message, and with \<^verbatim>\<open>Population\<close> out of range and an
  unreadable \<^verbatim>\<open>Exports\<close> after it the answer is the out-of-range message.
\<close>

theorem validate_order_counterexample:
  "float_of_str example_runtime ''abc'' = None \<and>
   coerced example_runtime payload_blank_country_bad_number ''Population'' = Inl ValueError \<and>
   validate_prediction_input example_runtime payload_blank_country_bad_number =
     Inr (False, Some ''Country name cannot be empty'', None) \<and>
   coerced example_runtime payload_range_then_bad ''Exports'' = Inl ValueError \<and>
   validate_prediction_input example_runtime payload_range_then_bad =
     Inr (False, Some ''Population value 150.0 is outside reasonable range'', None)"
  by (simp add: validate_present [OF full_payload_present full_payload_fields(1)]
        payload_blank_country_bad_number_def payload_range_then_bad_def
        py_str_def strip_examples numeric_fields_def
        coerced_def full_payload_fields py_float_def str_150 float_abc)

text \<open>
  C6, amended. On a request with no missing field the checks run in this order. First
  the country is turned into a string and stripped, and an empty result is answered
  with the empty-country message. Then the numeric fields are taken one at a time in
  their fixed order: the first field that, all fields before it having passed, raises
  \<^verbatim>\<open>ValueError\<close> or \<^verbatim>\<open>TypeError\<close> on coercion is answered with the invalid-value
  message naming it, and the first that coerces to a number outside the range is
  answered with the out-of-range message naming it and echoing the number, whatever the
  later fields hold. When every field passes, the answer is valid and carries the
  stripped country and the six numbers; the route then looks the country up, and a
  country the encoder does not know is answered with the unknown-country message.
\<close>

theorem validate_check_order:
  assumes present: "\<forall>f \<in> set required_fields. f \<in> dom data"
      and country: "data ''Country'' = Some cj"
  shows
    "(py_strip (py_str rt cj) = [] \<longrightarrow>
        validate_prediction_input rt data =
          Inr (False, Some ''Country name cannot be empty'', None)) \<and>
     (py_strip (py_str rt cj) \<noteq> [] \<longrightarrow>
        (\<forall>pre f post.
           numeric_fields = pre @ f # post \<and> (\<forall>g \<in> set pre. field_passes rt data g) \<longrightarrow>
           (coerced rt data f = Inl ValueError \<or> coerced rt data f = Inl TypeError \<longrightarrow>
              validate_prediction_input rt data =
                Inr (False, Some (''Invalid '' @ f @ '' value: must be a number''), None)) \<and>
           (\<forall>v. coerced rt data f = Inr v \<and> \<not> in_range v \<longrightarrow>
              validate_prediction_input rt data =
                Inr (False,
                     Some (f @ '' value '' @ str_of_float rt v @
                           '' is outside reasonable range''),
                     None))) \<and>
        ((\<forall>g \<in> set numeric_fields. field_passes rt data g) \<longrightarrow>
           (\<exists>vs. list_all2 (\<lambda>g v. coerced rt data g = Inr v \<and> in_range v) numeric_fields vs \<and>
                 validate_prediction_input rt data =
                   Inr (True, None,
                        Some ((''Country'', PStr (py_strip (py_str rt cj))) #
                              zip numeric_fields (map PFloat vs)))) \<and>
           (encoder app (py_strip (py_str rt cj)) = None \<longrightarrow>
              predict rt app data =
                Json400 ''Unknown country''
                  (Some (''Country '' @ [CHR 0x27] @ py_strip (py_str rt cj) @ [CHR 0x27] @
                         '' not found'')))))"
proof -
  note v = validate_present [OF present country, of rt]
  have empty: "py_strip (py_str rt cj) = [] \<Longrightarrow>
      validate_prediction_input rt data =
        Inr (False, Some ''Country name cannot be empty'', None)"
    by (simp add: v)
  have invalid: "validate_prediction_input rt data =
        Inr (False, Some (''Invalid '' @ f @ '' value: must be a number''), None)"
    if "py_strip (py_str rt cj) \<noteq> []" "numeric_fields = pre @ f # post"
       "\<forall>g \<in> set pre. field_passes rt data g"
       "coerced rt data f = Inl ValueError \<or> coerced rt data f = Inl TypeError"
    for pre f post
    using that(1) validate_numeric_invalid [OF that(3,4)] by (simp add: v that(2))
  have range: "validate_prediction_input rt data =
        Inr (False,
             Some (f @ '' value '' @ str_of_float rt x @ '' is outside reasonable range''),
             None)"
    if "py_strip (py_str rt cj) \<noteq> []" "numeric_fields = pre @ f # post"
       "\<forall>g \<in> set pre. field_passes rt data g"
       "coerced rt data f = Inr x" "\<not> in_range x"
    for pre f post x
    using that(1) validate_numeric_out_of_range [OF that(3,4,5)] by (simp add: v that(2))
  have pass: "\<exists>vs. list_all2 (\<lambda>g v. coerced rt data g = Inr v \<and> in_range v) numeric_fields vs \<and>
                 validate_prediction_input rt data =
                   Inr (True, None,
                        Some ((''Country'', PStr (py_strip (py_str rt cj))) #
                              zip numeric_fields (map PFloat vs)))"
    if "py_strip (py_str rt cj) \<noteq> []" "\<forall>g \<in> set numeric_fields. field_passes rt data g"
    using that(1) validate_numeric_all_pass [OF that(2), of "py_strip (py_str rt cj)"]
    by (simp add: v)
  have unknown: "predict rt app data =
                Json400 ''Unknown country''
                  (Some (''Country '' @ [CHR 0x27] @ py_strip (py_str rt cj) @ [CHR 0x27] @
                         '' not found''))"
    if "py_strip (py_str rt cj) \<noteq> []" "\<forall>g \<in> set numeric_fields. field_passes rt data g"
       "encoder app (py_strip (py_str rt cj)) = None"
  proof -
    from pass [OF that(1,2)] obtain vs where
      "validate_prediction_input rt data =
         Inr (True, None,
              Some ((''Country'', PStr (py_strip (py_str rt cj))) #
                    zip numeric_fields (map PFloat vs)))"
      by (elim exE conjE)
    then show ?thesis by (rule predict_unknown_country [OF _ that(3)])
  qed
  have numeric: "py_strip (py_str rt cj) \<noteq> [] \<longrightarrow>
        (\<forall>pre f post.
           numeric_fields = pre @ f # post \<and> (\<forall>g \<in> set pre. field_passes rt data g) \<longrightarrow>
           (coerced rt data f = Inl ValueError \<or> coerced rt data f = Inl TypeError \<longrightarrow>
              validate_prediction_input rt data =
                Inr (False, Some (''Invalid '' @ f @ '' value: must be a number''), None)) \<and>
           (\<forall>v. coerced rt data f = Inr v \<and> \<not> in_range v \<longrightarrow>
              validate_prediction_input rt data =
                Inr (False,
                     Some (f @ '' value '' @ str_of_float rt v @
                           '' is outside reasonable range''),
                     None))) \<and>
        ((\<forall>g \<in> set numeric_fields. field_passes rt data g) \<longrightarrow>
           (\<exists>vs. list_all2 (\<lambda>g v. coerced rt data g = Inr v \<and> in_range v) numeric_fields vs \<and>
                 validate_prediction_input rt data =
                   Inr (True, None,
                        Some ((''Country'', PStr (py_strip (py_str rt cj))) #
                              zip numeric_fields (map PFloat vs)))) \<and>
           (encoder app (py_strip (py_str rt cj)) = None \<longrightarrow>
              predict rt app data =
                Json400 ''Unknown country''
                  (Some (''Country '' @ [CHR 0x27] @ py_strip (py_str rt cj) @ [CHR 0x27] @
                         '' not found''))))"
  proof (intro impI conjI allI)
    fix pre f post
    assume a: "py_strip (py_str rt cj) \<noteq> []"
       "numeric_fields = pre @ f # post \<and> (\<forall>g \<in> set pre. field_passes rt data g)"
       "coerced rt data f = Inl ValueError \<or> coerced rt data f = Inl TypeError"
    show "validate_prediction_input rt data =
            Inr (False, Some (''Invalid '' @ f @ '' value: must be a number''), None)"
      by (rule invalid [OF a(1) conjunct1 [OF a(2)] conjunct2 [OF a(2)] a(3)])
  next
    fix pre f post v
    assume a: "py_strip (py_str rt cj) \<noteq> []"
       "numeric_fields = pre @ f # post \<and> (\<forall>g \<in> set pre. field_passes rt data g)"
       "coerced rt data f = Inr v \<and> \<not> in_range v"
    show "validate_prediction_input rt data =
            Inr (False,
                 Some (f @ '' value '' @ str_of_float rt v @ '' is outside reasonable range''),
                 None)"
      by (rule range [OF a(1) conjunct1 [OF a(2)] conjunct2 [OF a(2)]
                conjunct1 [OF a(3)] conjunct2 [OF a(3)]])
  next
    assume a: "py_strip (py_str rt cj) \<noteq> []"
       "\<forall>g \<in> set numeric_fields. field_passes rt data g"
    show "\<exists>vs. list_all2 (\<lambda>g v. coerced rt data g = Inr v \<and> in_range v) numeric_fields vs \<and>
                 validate_prediction_input rt data =
                   Inr (True, None,
                        Some ((''Country'', PStr (py_strip (py_str rt cj))) #
                              zip numeric_fields (map PFloat vs)))"
      by (rule pass [OF a])
  next
    assume a: "py_strip (py_str rt cj) \<noteq> []"
       "\<forall>g \<in> set numeric_fields. field_passes rt data g"
       "encoder app (py_strip (py_str rt cj)) = None"
    show "predict rt app data =
                Json400 ''Unknown country''
                  (Some (''Country '' @ [CHR 0x27] @ py_strip (py_str rt cj) @ [CHR 0x27] @
                         '' not found''))"
      by (rule unknown [OF a])
  qed
  show ?thesis
    by (rule conjI [OF impI [OF empty] numeric])
qed

theorem validate_check_order_witness:
  "set required_fields \<subseteq> dom payload_range_then_bad \<and>
   payload_range_then_bad ''Country'' = Some (JStr ''USA'') \<and>
   py_strip (py_str example_runtime (JStr ''USA'')) \<noteq> [] \<and>
   numeric_fields = [] @ ''Population'' # tl numeric_fields \<and>
   coerced example_runtime payload_range_then_bad ''Population'' = Inr (Fin 150) \<and>
   \<not> in_range (Fin 150) \<and>
   validate_prediction_input example_runtime payload_range_then_bad =
     Inr (False,
          Some (''Population'' @ '' value '' @ str_of_float example_runtime (Fin 150) @
                '' is outside reasonable range''),
          None)"
proof -
  have h1: "\<forall>f \<in> set required_fields. f \<in> dom payload_range_then_bad"
    unfolding payload_range_then_bad_def by (rule full_payload_present)
  have h2: "payload_range_then_bad ''Country'' = Some (JStr ''USA'')"
    by (simp add: payload_range_then_bad_def full_payload_fields)
  have h3: "py_strip (py_str example_runtime (JStr ''USA'')) \<noteq> []"
    by (simp add: py_str_def strip_examples)
  have h4: "numeric_fields = [] @ ''Population'' # tl numeric_fields"
    by (simp add: numeric_fields_def)
  have h5: "coerced example_runtime payload_range_then_bad ''Population'' = Inr (Fin 150)"
    by (simp add: coerced_def payload_range_then_bad_def full_payload_fields py_float_def)
  have h6: "\<not> in_range (Fin 150)" by simp
  have h0: "\<forall>g \<in> set []. field_passes example_runtime payload_range_then_bad g"
    by simp
  note numeric = validate_check_order [OF h1 h2, of example_runtime backend_without_model,
      THEN conjunct2, THEN mp, OF h3, THEN conjunct1]
  note at_population = numeric [THEN spec, THEN spec, THEN spec, THEN mp, OF conjI [OF h4 h0],
      THEN conjunct2, THEN spec, THEN mp, OF conjI [OF h5 h6]]
  show ?thesis
    by (intro conjI subsetI h1 [rule_format] h2 h3 h4 h5 h6 at_population)
qed

section \<open>The prediction route\<close>

text \<open>
  C8. For the validated scenario of the specification the route answers with the
  method \<^verbatim>\<open>AI Model\<close> when the model answers; when the model is not loaded, or raises,
  no simulation is computed: the exception leaves the route unhandled.
\<close>

theorem predict_without_fallback:
  "predict example_runtime backend_without_model payload_brazil = Unhandled AttributeError \<and>
   predict example_runtime backend_failing_model payload_brazil = Unhandled ValueError \<and>
   predict example_runtime backend_constant_model payload_brazil =
     Json200 (345 / 100) ''AI Model'' ''Brazil''"
  by (simp add: predict_def validate_brazil lookup_string_def lookup_number_def
        numeric_fields_def backend_without_model_def backend_failing_model_def
        backend_constant_model_def py_round2_def)

section \<open>The timeline\<close>

subsection \<open>Rounding to a double\<close>

lemma bit_length_0 [simp]: "bit_length 0 = 0"
  by (simp add: bit_length.simps)
















subsection \<open>The appended points\<close>


text \<open>
  The second point at the predicted growths 9.5 and 7.9: the double products are just
  below 9.975 and 8.295, so the points show 9.97 and 8.29.
\<close>

lemma double_product_9_5:
  "js_times (19 / 2) (round_double (105 / 100)) = 5615425785377587 / 562949953421312"
  by code_simp


lemma timeline_growth_7_9:
  "toFixed2 (js_times (round_double (79 / 10)) (round_double (105 / 100))) =
     round_double (829 / 100)"
  by code_simp





section \<open>The dashboard's request\<close>

text \<open>
  C9, as stated, fails: the body that \<^verbatim>\<open>handlePredict\<close> builds has no member
  \<^verbatim>\<open>population_growth\<close>; its member is \<^verbatim>\<open>Population_Growth_Rate\<close>.
\<close>

theorem requestData_field_names_counterexample:
  "map fst (requestData example_parseFloat example_state) \<noteq>
     [''country'', ''population_growth'', ''exports_growth'', ''imports_growth'',
      ''investment_growth'', ''consumption_growth'', ''govt_spend_growth''] \<and>
   ''population_growth'' \<notin> set (map fst (requestData example_parseFloat example_state)) \<and>
   ''Population_Growth_Rate'' \<in> set (map fst (requestData example_parseFloat example_state))"
  by (simp add: requestData_def)

lemma validate_reports_missing:
  assumes "f \<in> set required_fields" and "f \<notin> dom data"
  shows "validate_prediction_input rt data =
           Inr (False,
                Some (''Missing required fields: '' @
                      py_join '', '' (filter (\<lambda>f. f \<notin> dom data) required_fields)),
                None)"
proof -
  have "filter (\<lambda>f. f \<notin> dom data) required_fields \<noteq> []"
    using assms by (auto simp: filter_empty_conv)
  then show ?thesis
    unfolding validate_prediction_input_def missing_filter Let_def by simp
qed

text \<open>
  C9, amended. The request body that \<^verbatim>\<open>handlePredict\<close> builds has exactly the seven
  members \<^verbatim>\<open>Country\<close>, \<^verbatim>\<open>Population_Growth_Rate\<close>, \<^verbatim>\<open>Exports_Growth_Rate\<close>,
  \<^verbatim>\<open>Imports_Growth_Rate\<close>, \<^verbatim>\<open>Investment_Growth_Rate\<close>, \<^verbatim>\<open>Consumption_Growth_Rate\<close>
  and \<^verbatim>\<open>Govt_Spend_Growth_Rate\<close>, in this order, each carrying its own input: the
  selected country, and the six input strings read as numbers, the government spending
  input under \<^verbatim>\<open>Govt_Spend_Growth_Rate\<close>. On its side, \<^verbatim>\<open>validate_prediction_input\<close>
  answers every body that lacks one of the names it requires with the missing-fields
  message, which lists that name, and with no validated data: no number is put in the
  place of the absent field.
\<close>

theorem requestData_field_names:
  "map fst (requestData parseFloat s) =
     [''Country'', ''Population_Growth_Rate'', ''Exports_Growth_Rate'', ''Imports_Growth_Rate'',
      ''Investment_Growth_Rate'', ''Consumption_Growth_Rate'', ''Govt_Spend_Growth_Rate''] \<and>
   map snd (requestData parseFloat s) =
     [JSString (selectedCountry s), JSNumber (parseFloat (populationGrowth s)),
      JSNumber (parseFloat (exportsGrowth s)), JSNumber (parseFloat (importsGrowth s)),
      JSNumber (parseFloat (investment s)), JSNumber (parseFloat (consumption s)),
      JSNumber (parseFloat (governmentSpending s))] \<and>
   (\<forall>rt data f.
      f \<in> set required_fields \<and> f \<notin> dom data \<longrightarrow>
      validate_prediction_input rt data =
        Inr (False,
             Some (''Missing required fields: '' @
                   py_join '', '' (filter (\<lambda>f. f \<notin> dom data) required_fields)),
             None) \<and>
      f \<in> set (filter (\<lambda>f. f \<notin> dom data) required_fields))"
proof -
  have "validate_prediction_input rt data =
        Inr (False,
             Some (''Missing required fields: '' @
                   py_join '', '' (filter (\<lambda>f. f \<notin> dom data) required_fields)),
             None) \<and>
      f \<in> set (filter (\<lambda>f. f \<notin> dom data) required_fields)"
    if "f \<in> set required_fields \<and> f \<notin> dom data" for rt data f
    using that validate_reports_missing [of f data rt] by simp
  then show ?thesis
    by (simp add: requestData_def)
qed

theorem requestData_field_names_witness:
  "''Govt_Spend'' \<in> set required_fields \<and> ''Govt_Spend'' \<notin> dom payload_display_label \<and>
   validate_prediction_input example_runtime payload_display_label =
     Inr (False, Some ''Missing required fields: Govt_Spend'', None)"
proof -
  have h: "''Govt_Spend'' \<in> set required_fields \<and> ''Govt_Spend'' \<notin> dom payload_display_label"
    by (simp add: required_fields_def payload_display_label_def domIff)
  have m: "filter (\<lambda>f. f \<notin> dom payload_display_label) required_fields = [''Govt_Spend'']"
    by (simp add: required_fields_def payload_display_label_def domIff)
  note t = requestData_field_names [of example_parseFloat example_state,
      THEN conjunct2, THEN conjunct2, THEN spec, THEN spec, THEN spec, THEN mp, OF h,
      THEN conjunct1]
  show ?thesis
    using h t [of example_runtime] unfolding m by simp
qed

text \<open>
  C10. In every state in which the selected country or one of the six indicator inputs
  is empty, \<^verbatim>\<open>handlePredict\<close> returns at once: it issues no request and leaves the
  state as it is, so the prediction, the prediction method and the error are unchanged.
  The button is disabled in exactly these states and while a calculation is running.
\<close>

theorem handlePredict_guard:
  "(selectedCountry s = [] \<or> populationGrowth s = [] \<or> exportsGrowth s = [] \<or>
    importsGrowth s = [] \<or> investment s = [] \<or> consumption s = [] \<or>
    governmentSpending s = [] \<longrightarrow>
      handlePredict parseFloat api s = (s, []) \<and>
      prediction_value (fst (handlePredict parseFloat api s)) = prediction_value s \<and>
      predictionMethod (fst (handlePredict parseFloat api s)) = predictionMethod s \<and>
      apiError (fst (handlePredict parseFloat api s)) = apiError s) \<and>
   (predict_button_disabled s \<longleftrightarrow>
      (selectedCountry s = [] \<or> populationGrowth s = [] \<or> exportsGrowth s = [] \<or>
       importsGrowth s = [] \<or> investment s = [] \<or> consumption s = [] \<or>
       governmentSpending s = []) \<or> isCalculating s)"
proof -
  have "handlePredict parseFloat api s = (s, [])"
    if "selectedCountry s = [] \<or> populationGrowth s = [] \<or> exportsGrowth s = [] \<or>
        importsGrowth s = [] \<or> investment s = [] \<or> consumption s = [] \<or>
        governmentSpending s = []"
    unfolding handlePredict_def using that by (simp only: if_True)
  moreover have "predict_button_disabled s \<longleftrightarrow>
      (selectedCountry s = [] \<or> populationGrowth s = [] \<or> exportsGrowth s = [] \<or>
       importsGrowth s = [] \<or> investment s = [] \<or> consumption s = [] \<or>
       governmentSpending s = []) \<or> isCalculating s"
    unfolding predict_button_disabled_def by (simp only: disj_assoc)
  ultimately show ?thesis by simp
qed

theorem handlePredict_guard_witness:
  "governmentSpending example_state_no_spending = [] \<and>
   handlePredict example_parseFloat offline_api example_state_no_spending =
     (example_state_no_spending, []) \<and>
   predict_button_disabled example_state_no_spending"
proof -
  have h: "governmentSpending example_state_no_spending = []"
    by (simp add: example_state_no_spending_def)
  show ?thesis
    using h handlePredict_guard [of example_state_no_spending example_parseFloat offline_api]
    by simp
qed

text \<open>With every input filled in, the first thing the handler does is to send the request.\<close>

lemma handlePredict_issues_request:
  assumes "selectedCountry s \<noteq> []" "populationGrowth s \<noteq> []" "exportsGrowth s \<noteq> []"
    "importsGrowth s \<noteq> []" "investment s \<noteq> []" "consumption s \<noteq> []"
    "governmentSpending s \<noteq> []"
  shows "hd (snd (handlePredict parseFloat api s)) = SubmitPrediction (requestData parseFloat s)"
  using assms by (simp add: handlePredict_def Let_def split: sum.splits)

end
